theory Spec2Isabelle
  imports Complex_Main
begin

section \<open>Order lifecycle and inventory of the delivery backend\<close>

text \<open>
  This theory embeds the order controller (\<^verbatim>\<open>controllers/orders\<close>: \<^verbatim>\<open>createOrder\<close>,
  \<^verbatim>\<open>updateOrderStatus\<close>, \<^verbatim>\<open>cancelOrder\<close>, \<^verbatim>\<open>rateOrder\<close>) together with the schemas,
  hooks and methods of the \<^verbatim>\<open>Product\<close> and \<^verbatim>\<open>Order\<close> models that these handlers run
  against.

  Conventions of the embedding.
  \<^item> A JavaScript \<^verbatim>\<open>Number\<close> is an exact rational (\<open>rat\<close>): sums, products and the
    comparison with 500 are the mathematical ones; rounding of doubles is not modelled.
  \<^item> An \<^verbatim>\<open>ObjectId\<close> is a natural number; \<open>toString_nat\<close> is its printed form.
  \<^item> A document is what its schema makes of it. A document loaded from a collection has
    the paths the schema declares and no others: \<^verbatim>\<open>orderSchema\<close> declares \<^verbatim>\<open>customer\<close>,
    \<^verbatim>\<open>subtotal\<close> and \<^verbatim>\<open>deliveryCharge\<close>, and it declares no \<^verbatim>\<open>user\<close>, \<^verbatim>\<open>deliveryFee\<close>,
    \<^verbatim>\<open>statusHistory\<close> or \<^verbatim>\<open>ratedAt\<close>, so that \<^verbatim>\<open>order.user\<close> and
    \<^verbatim>\<open>order.statusHistory\<close> are \<^verbatim>\<open>undefined\<close> on every order. A new document takes the
    declared paths of the object it is built from and the schema's defaults; saving it
    validates it against the schema, then runs the \<^verbatim>\<open>pre('save')\<close> hook, then stores it.
  \<^item> Fields keep the source's names; where two documents share a field name it carries a
    prefix (\<open>p_\<close> product, \<open>o_\<close> order, \<open>i_\<close> line item, \<open>r_\<close> requested item,
    \<open>u_\<close> user, \<open>s_\<close> shop, \<open>n_\<close> notification, \<open>f_\<close> the object given to
    \<^verbatim>\<open>Order.create\<close>).
  \<^item> A handler takes the store and returns the new store with its outcome: the
    \<^verbatim>\<open>ErrorResponse\<close> handed to \<^verbatim>\<open>next\<close>, an uncaught \<^verbatim>\<open>TypeError\<close>, an uncaught
    \<^verbatim>\<open>ValidationError\<close> with the paths that failed, or the JSON response. The clock
    (\<^verbatim>\<open>Date.now()\<close>, \<^verbatim>\<open>new Date()\<close>) is the argument \<open>now\<close>.
\<close>

subsection \<open>Values\<close>

type_synonym oid = nat
type_synonym number = rat

text \<open>\<^verbatim>\<open>new ErrorResponse(message, statusCode)\<close>.\<close>

datatype error_response = ErrorResponse (message: string) (statusCode: nat)

datatype 'a outcome =
    Next error_response
  | TypeError
  | ValidationError "string list"
  | Response (httpStatus: nat) (body: 'a)

text \<open>
  A \<^verbatim>\<open>Date\<close> by the getters the code reads: \<^verbatim>\<open>getFullYear()\<close>, \<^verbatim>\<open>getMonth()\<close>
  (0 to 11), \<^verbatim>\<open>getDate()\<close> (1 to 31), and the milliseconds elapsed in that day.
\<close>

record jsdate =
  fullYear :: nat
  monthIndex :: nat
  dayOfMonth :: nat
  msOfDay :: nat

definition valid_date :: "jsdate \<Rightarrow> bool" where
  "valid_date d = (1970 \<le> fullYear d \<and> monthIndex d \<le> 11 \<and> 1 \<le> dayOfMonth d \<and> dayOfMonth d \<le> 31)"
subsection \<open>Strings: \<^verbatim>\<open>toString\<close>, \<^verbatim>\<open>padStart\<close>, \<^verbatim>\<open>slice\<close>\<close>

definition digit_char :: "nat \<Rightarrow> char" where
  "digit_char n = ''0123456789'' ! n"

function toString_nat :: "nat \<Rightarrow> string" where
  "toString_nat n =
     (if n < 10 then [digit_char n] else toString_nat (n div 10) @ [digit_char (n mod 10)])"
  by pat_completeness auto
termination
  by (relation "measure (\<lambda>n. n)") auto

declare toString_nat.simps [simp del]

text \<open>\<^verbatim>\<open>s.padStart(n, c)\<close> for a one-character pad string: never truncates.\<close>

definition padStart :: "nat \<Rightarrow> char \<Rightarrow> string \<Rightarrow> string" where
  "padStart n c s = replicate (n - length s) c @ s"

text \<open>\<^verbatim>\<open>s.slice(-k)\<close>: the last \<open>k\<close> characters, all of \<open>s\<close> when it is shorter.\<close>

definition slice_last :: "nat \<Rightarrow> string \<Rightarrow> string" where
  "slice_last k s = drop (length s - k) s"

subsection \<open>Product model\<close>

record product_doc =
  p_shop :: oid
  p_name :: string
  price :: number
  stock :: number
  isAvailable :: bool
  isActive :: bool

type_synonym products = "oid \<rightharpoonup> product_doc"

text \<open>\<^verbatim>\<open>productSchema.pre('save')\<close>: \<^verbatim>\<open>this.isAvailable = this.stock > 0\<close>.\<close>

definition product_pre_save :: "product_doc \<Rightarrow> product_doc" where
  "product_pre_save p = p\<lparr>isAvailable := (stock p > 0)\<rparr>"

text \<open>
  \<^verbatim>\<open>product.save()\<close> for the document stored under \<open>pid\<close>. A stored product is taken
  to satisfy its schema, and where the handlers save one the stock has just been checked
  against the quantity taken off, so the validator of \<^verbatim>\<open>stock\<close> (minimum 0) passes: the
  save runs the hook and stores the document.
\<close>

definition product_save :: "products \<Rightarrow> oid \<Rightarrow> product_doc \<Rightarrow> products" where
  "product_save ps pid p = ps(pid \<mapsto> product_pre_save p)"

subsection \<open>Requests\<close>

text \<open>
  The \<^verbatim>\<open>product\<close> field of a requested item is whatever the body carries: the id alone,
  or an object with an \<^verbatim>\<open>_id\<close> and possibly a \<^verbatim>\<open>shop\<close> field. \<^verbatim>\<open>findById\<close> accepts
  both; reading \<^verbatim>\<open>.shop\<close> of an id gives \<^verbatim>\<open>undefined\<close> (\<open>None\<close>).
\<close>

datatype product_ref = IdRef oid | ObjRef oid "oid option"

fun ref_id :: "product_ref \<Rightarrow> oid" where
  "ref_id (IdRef i) = i"
| "ref_id (ObjRef i s) = i"

fun ref_shop :: "product_ref \<Rightarrow> oid option" where
  "ref_shop (IdRef i) = None"
| "ref_shop (ObjRef i s) = s"

text \<open>The template literal \<^verbatim>\<open>${item.product}\<close>.\<close>

fun ref_string :: "product_ref \<Rightarrow> string" where
  "ref_string (IdRef i) = toString_nat i"
| "ref_string (ObjRef i s) = ''[object Object]''"

record req_item =
  r_product :: product_ref
  r_quantity :: number

record order_item =
  i_product :: product_ref
  i_quantity :: number
  i_price :: number
  i_total :: number

text \<open>
  \<^verbatim>\<open>req.user\<close>: the authenticated user's id, shop reference and address. An address
  is an object of the source; a \<open>string\<close> stands for it.
\<close>

record req_user =
  u_id :: oid
  u_shop :: "oid option"
  u_address :: "string option"

record create_body =
  items :: "req_item list option"
  deliveryAddress :: "string option"
  deliveryInstructions :: "string option"
  paymentMethod :: "string option"

subsection \<open>Reserving stock: the body of the loop of \<^verbatim>\<open>createOrder\<close>\<close>

text \<open>
  One iteration of \<^verbatim>\<open>for (const item of items)\<close>: look the product up, refuse with an
  error, or decrement the stock, save the product and build the line item.
\<close>

definition reserveItem :: "products \<Rightarrow> req_item \<Rightarrow> error_response + (products \<times> order_item)" where
  "reserveItem ps item =
     (case ps (ref_id (r_product item)) of
        None \<Rightarrow> Inl (ErrorResponse (''Product '' @ ref_string (r_product item) @ '' not found'') 404)
      | Some product \<Rightarrow>
          if \<not> isActive product then
            Inl (ErrorResponse (''Product '' @ p_name product @ '' is not available'') 400)
          else if stock product < r_quantity item then
            Inl (ErrorResponse (''Insufficient stock for '' @ p_name product) 400)
          else
            Inr (product_save ps (ref_id (r_product item))
                   (product\<lparr>stock := stock product - r_quantity item\<rparr>),
                 \<lparr>i_product = r_product item,
                  i_quantity = r_quantity item,
                  i_price = price product,
                  i_total = price product * r_quantity item\<rparr>))"

subsection \<open>Order model\<close>

text \<open>
  An order document by the paths of \<^verbatim>\<open>orderSchema\<close> that matter here. A required path
  that may be missing is optional (\<open>None\<close>); a path with a default is always there.
\<close>

record order_doc =
  o_id :: oid
  orderNumber :: "string option"
  customer :: "oid option"
  o_shop :: "oid option"
  o_items :: "order_item list"
  subtotal :: "number option"
  deliveryCharge :: number
  tax :: number
  discount :: number
  total :: "number option"
  status :: string
  o_paymentMethod :: string
  paymentStatus :: string
  deliveryType :: "string option"
  o_deliveryAddress :: "string option"
  o_deliveryInstructions :: "string option"
  actualDeliveryTime :: "jsdate option"
  orderNotes :: "string option"
  o_rating :: "number option"
  review :: "string option"
  isRated :: bool
  createdAt :: jsdate

text \<open>\<^verbatim>\<open>Order.findById(id)\<close>: the stored document with that \<^verbatim>\<open>_id\<close>, or \<^verbatim>\<open>null\<close>.\<close>

definition findById :: "order_doc list \<Rightarrow> oid \<Rightarrow> order_doc option" where
  "findById os i = find (\<lambda>x. o_id x = i) os"

text \<open>
  The validators of \<^verbatim>\<open>orderItemSchema\<close> and \<^verbatim>\<open>orderSchema\<close>: \<^verbatim>\<open>required\<close> (a required
  string must also be non-empty), \<^verbatim>\<open>min\<close>, \<^verbatim>\<open>max\<close>, \<^verbatim>\<open>enum\<close> and \<^verbatim>\<open>maxlength\<close>.
  \<open>order_validate\<close> lists the paths that fail, in the order the schema declares them (the
  order carries no meaning); the document is valid when the list is empty.
\<close>

definition check :: "bool \<Rightarrow> string \<Rightarrow> string list" where
  "check ok path = (if ok then [] else [path])"

fun items_errors :: "nat \<Rightarrow> order_item list \<Rightarrow> string list" where
  "items_errors i [] = []"
| "items_errors i (it # its) =
     check (1 \<le> i_quantity it) (''items.'' @ toString_nat i @ ''.quantity'') @
     check (0 \<le> i_price it) (''items.'' @ toString_nat i @ ''.price'') @
     check (0 \<le> i_total it) (''items.'' @ toString_nat i @ ''.total'') @
     items_errors (Suc i) its"

definition order_validate :: "order_doc \<Rightarrow> string list" where
  "order_validate d =
     check (case orderNumber d of None \<Rightarrow> False | Some n \<Rightarrow> n \<noteq> []) ''orderNumber'' @
     check (customer d \<noteq> None) ''customer'' @
     check (o_shop d \<noteq> None) ''shop'' @
     items_errors 0 (o_items d) @
     check (case subtotal d of None \<Rightarrow> False | Some x \<Rightarrow> 0 \<le> x) ''subtotal'' @
     check (0 \<le> deliveryCharge d) ''deliveryCharge'' @
     check (0 \<le> tax d) ''tax'' @
     check (0 \<le> discount d) ''discount'' @
     check (case total d of None \<Rightarrow> False | Some x \<Rightarrow> 0 \<le> x) ''total'' @
     check (status d \<in> set [''pending'', ''confirmed'', ''preparing'', ''ready_for_pickup'',
                                ''out_for_delivery'', ''delivered'', ''cancelled'', ''refunded''])
       ''status'' @
     check (o_paymentMethod d \<in> set [''cod'', ''online'']) ''paymentMethod'' @
     check (paymentStatus d \<in> set [''pending'', ''paid'', ''failed'', ''refunded''])
       ''paymentStatus'' @
     check (case deliveryType d of None \<Rightarrow> False
            | Some t \<Rightarrow> t \<in> set [''home_delivery'', ''pickup'']) ''deliveryType'' @
     check (case o_deliveryInstructions d of None \<Rightarrow> True | Some t \<Rightarrow> length t \<le> 300)
       ''deliveryInstructions'' @
     check (case orderNotes d of None \<Rightarrow> True | Some t \<Rightarrow> length t \<le> 500) ''orderNotes'' @
     check (case o_rating d of None \<Rightarrow> True | Some r \<Rightarrow> 1 \<le> r \<and> r \<le> 5) ''rating'' @
     check (case review d of None \<Rightarrow> True | Some t \<Rightarrow> length t \<le> 500) ''review''"

text \<open>
  The query \<^verbatim>\<open>createdAt: { $gte: todayStart, $lt: todayEnd }\<close>, where \<^verbatim>\<open>todayStart\<close> and
  \<^verbatim>\<open>todayEnd\<close> are midnight of the clock's day and of the next day: it selects the
  documents created on the clock's calendar day.
\<close>

definition created_today :: "jsdate \<Rightarrow> order_doc \<Rightarrow> bool" where
  "created_today date d =
     (fullYear (createdAt d) = fullYear date \<and>
      monthIndex (createdAt d) = monthIndex date \<and>
      dayOfMonth (createdAt d) = dayOfMonth date)"

definition countDocuments_today :: "jsdate \<Rightarrow> order_doc list \<Rightarrow> nat" where
  "countDocuments_today date os = length (filter (created_today date) os)"

text \<open>\<^verbatim>\<open>orderSchema.pre('save')\<close>: a new document gets its order number.\<close>

definition order_pre_save :: "bool \<Rightarrow> jsdate \<Rightarrow> order_doc list \<Rightarrow> order_doc \<Rightarrow> order_doc" where
  "order_pre_save isNew date os d =
     (if isNew then
        let year = slice_last 2 (toString_nat (fullYear date));
            month = padStart 2 (CHR ''0'') (toString_nat (monthIndex date + 1));
            day = padStart 2 (CHR ''0'') (toString_nat (dayOfMonth date));
            orderCount = countDocuments_today date os;
            sequence = padStart 4 (CHR ''0'') (toString_nat (orderCount + 1))
        in d\<lparr>orderNumber := Some (''ORD'' @ year @ month @ day @ sequence)\<rparr>
      else d)"

text \<open>
  Saving a new document: it is validated first; a valid one goes through the hook and is
  appended to the collection. Returns the failing paths, or the collection and the stored
  document.
\<close>

definition Order_save_new ::
  "jsdate \<Rightarrow> order_doc list \<Rightarrow> order_doc \<Rightarrow> string list + (order_doc list \<times> order_doc)" where
  "Order_save_new now os d =
     (case order_validate d of
        [] \<Rightarrow> (let d1 = order_pre_save True now os d in Inr (os @ [d1], d1))
      | path # paths \<Rightarrow> Inl (path # paths))"

text \<open>
  \<^verbatim>\<open>orderSchema.methods.updateStatus(newStatus, notes = '')\<close>, up to its final
  \<^verbatim>\<open>this.save()\<close>. No handler calls it.
\<close>

definition updateStatus :: "jsdate \<Rightarrow> string \<Rightarrow> string \<Rightarrow> order_doc \<Rightarrow> order_doc" where
  "updateStatus now newStatus notes d =
     (let d1 = d\<lparr>status := newStatus\<rparr>;
          d2 = (if notes \<noteq> [] then d1\<lparr>orderNotes := Some notes\<rparr> else d1)
      in if newStatus = ''delivered'' then d2\<lparr>actualDeliveryTime := Some now\<rparr> else d2)"

text \<open>The \<^verbatim>\<open>_id\<close> given to a new document: one that no stored document has.\<close>

definition fresh_id :: "order_doc list \<Rightarrow> oid" where
  "fresh_id os = Suc (foldr (\<lambda>d m. max (o_id d) m) os 0)"

text \<open>
  The object literal that \<^verbatim>\<open>createOrder\<close> gives to \<^verbatim>\<open>Order.create\<close>:
  \<^verbatim>\<open>{ user, items, total, deliveryFee, deliveryAddress, deliveryInstructions,
  paymentMethod, shop }\<close>.
\<close>

record order_fields =
  f_user :: oid
  f_items :: "order_item list"
  f_total :: number
  f_deliveryFee :: number
  f_deliveryAddress :: "string option"
  f_deliveryInstructions :: "string option"
  f_paymentMethod :: "string option"
  f_shop :: "oid option"

text \<open>
  The document built from that object: \<^verbatim>\<open>items\<close>, \<^verbatim>\<open>total\<close>, \<^verbatim>\<open>deliveryAddress\<close>,
  \<^verbatim>\<open>deliveryInstructions\<close>, \<^verbatim>\<open>paymentMethod\<close> and \<^verbatim>\<open>shop\<close> are paths of the schema;
  \<^verbatim>\<open>user\<close> and \<^verbatim>\<open>deliveryFee\<close> are not, and are dropped; the object has no
  \<^verbatim>\<open>orderNumber\<close>, \<^verbatim>\<open>customer\<close>, \<^verbatim>\<open>subtotal\<close> or \<^verbatim>\<open>deliveryType\<close>; the defaults fill
  the rest.
\<close>

definition new_Order :: "jsdate \<Rightarrow> order_doc list \<Rightarrow> order_fields \<Rightarrow> order_doc" where
  "new_Order now os f =
     \<lparr>o_id = fresh_id os, orderNumber = None, customer = None, o_shop = f_shop f,
      o_items = f_items f, subtotal = None, deliveryCharge = 0, tax = 0, discount = 0,
      total = Some (f_total f), status = ''pending'',
      o_paymentMethod = (case f_paymentMethod f of None \<Rightarrow> ''cod'' | Some m \<Rightarrow> m),
      paymentStatus = ''pending'', deliveryType = None,
      o_deliveryAddress = f_deliveryAddress f,
      o_deliveryInstructions = f_deliveryInstructions f,
      actualDeliveryTime = None, orderNotes = None, o_rating = None, review = None,
      isRated = False, createdAt = now\<rparr>"

text \<open>\<^verbatim>\<open>Order.create(fields)\<close>: build the document and save it.\<close>

definition Order_create ::
  "jsdate \<Rightarrow> order_doc list \<Rightarrow> order_fields \<Rightarrow> string list + (order_doc list \<times> order_doc)" where
  "Order_create now os f = Order_save_new now os (new_Order now os f)"

subsection \<open>Shops, notifications, the store\<close>

record shop_doc =
  owner :: oid
  s_name :: string
  s_rating :: number
  totalRatings :: number

text \<open>
  A stored notification, by the arguments of
  \<^verbatim>\<open>Notification.createOrderStatusNotification(userId, orderId, status, orderNumber)\<close>.
  \<^verbatim>\<open>notificationSchema\<close> requires \<^verbatim>\<open>user\<close>: a call with an \<^verbatim>\<open>undefined\<close> recipient is
  rejected with a \<^verbatim>\<open>ValidationError\<close> on that path and stores nothing. No handler below
  gets as far as storing one.
\<close>

record notification =
  n_user :: oid
  n_orderId :: oid
  n_status :: string
  n_orderNumber :: string

record store =
  products :: products
  shops :: "oid \<rightharpoonup> shop_doc"
  orders :: "order_doc list"
  notifications :: "notification list"

subsection \<open>\<^verbatim>\<open>createOrder\<close>\<close>

text \<open>
  The loop over the requested items, with the running \<^verbatim>\<open>total\<close> and \<^verbatim>\<open>orderItems\<close>. A
  refused item ends the handler at once; the products saved by the earlier iterations stay
  as saved.
\<close>

fun reserve_loop ::
  "products \<Rightarrow> req_item list \<Rightarrow> number \<Rightarrow> order_item list \<Rightarrow>
   products \<times> (error_response + (number \<times> order_item list))" where
  "reserve_loop ps [] tot orderItems = (ps, Inr (tot, orderItems))"
| "reserve_loop ps (item # rest) tot orderItems =
     (case reserveItem ps item of
        Inl e \<Rightarrow> (ps, Inl e)
      | Inr (ps', oi) \<Rightarrow> reserve_loop ps' rest (tot + i_total oi) (orderItems @ [oi]))"

text \<open>
  After the loop, lines 117 to 131: the delivery fee, the total, and the object for
  \<^verbatim>\<open>Order.create\<close>, whose \<^verbatim>\<open>shop\<close> is \<^verbatim>\<open>orderItems[0].product.shop\<close>: the \<^verbatim>\<open>shop\<close>
  field of the first requested item's \<^verbatim>\<open>product\<close> value.
\<close>

definition createOrder_fields ::
  "req_user \<Rightarrow> create_body \<Rightarrow> number \<Rightarrow> order_item \<Rightarrow> order_item list \<Rightarrow> order_fields" where
  "createOrder_fields user b itemsTotal first orderItems =
     (let deliveryFee = (if itemsTotal > 500 then 0 else 50);
          tot = itemsTotal + deliveryFee
      in \<lparr>f_user = u_id user,
          f_items = orderItems,
          f_total = tot,
          f_deliveryFee = deliveryFee,
          f_deliveryAddress = (case deliveryAddress b of Some a \<Rightarrow> Some a
                               | None \<Rightarrow> u_address user),
          f_deliveryInstructions = deliveryInstructions b,
          f_paymentMethod = paymentMethod b,
          f_shop = ref_shop (i_product first)\<rparr>)"

text \<open>
  The handler. \<^verbatim>\<open>Order.create\<close> rejects the object (the document lacks the required
  \<^verbatim>\<open>customer\<close>, \<^verbatim>\<open>subtotal\<close>, \<^verbatim>\<open>deliveryType\<close> and \<^verbatim>\<open>orderNumber\<close>), and the handler
  ends in that \<^verbatim>\<open>ValidationError\<close> with the stock already lowered. The lines after it are
  kept as the source has them: the re-read of the order with its shop populated (fields
  \<^verbatim>\<open>name\<close> and \<^verbatim>\<open>location\<close> only; a \<^verbatim>\<open>TypeError\<close> when the order or its shop resolves to
  nothing), and the notification for \<^verbatim>\<open>populatedOrder.shop.owner\<close>, which is
  \<^verbatim>\<open>undefined\<close> because \<^verbatim>\<open>owner\<close> is not among the populated fields, so that
  \<^verbatim>\<open>Notification.create\<close> rejects it on the required path \<^verbatim>\<open>user\<close>. The 201 response
  of line 147 comes after that call and is never sent.
\<close>

definition createOrder :: "jsdate \<Rightarrow> req_user \<Rightarrow> create_body \<Rightarrow> store \<Rightarrow> store \<times> order_doc outcome" where
  "createOrder now user b s =
     (case items b of
        None \<Rightarrow> (s, Next (ErrorResponse ''Please add items to your order'' 400))
      | Some [] \<Rightarrow> (s, Next (ErrorResponse ''Please add items to your order'' 400))
      | Some (item # rest) \<Rightarrow>
          (case reserve_loop (products s) (item # rest) 0 [] of
             (ps, Inl e) \<Rightarrow> (s\<lparr>products := ps\<rparr>, Next e)
           | (ps, Inr (itemsTotal, orderItems)) \<Rightarrow>
               (case orderItems of
                  [] \<Rightarrow> (s\<lparr>products := ps\<rparr>, TypeError)
                | first # others \<Rightarrow>
                    (case Order_create now (orders s)
                            (createOrder_fields user b itemsTotal first orderItems) of
                       Inl paths \<Rightarrow> (s\<lparr>products := ps\<rparr>, ValidationError paths)
                     | Inr (os, order) \<Rightarrow>
                         let s1 = s\<lparr>products := ps, orders := os\<rparr>
                         in (case findById os (o_id order) of
                               None \<Rightarrow> (s1, TypeError)
                             | Some populatedOrder \<Rightarrow>
                                 (case (case o_shop populatedOrder of None \<Rightarrow> None
                                        | Some sid \<Rightarrow> shops s1 sid) of
                                    None \<Rightarrow> (s1, TypeError)
                                  | Some shp \<Rightarrow> (s1, ValidationError [''user''])))))))"

subsection \<open>\<^verbatim>\<open>updateOrderStatus\<close>\<close>

text \<open>
  Lines 156 to 175. After the two checks the handler assigns \<^verbatim>\<open>order.status\<close> on the
  loaded document and calls \<^verbatim>\<open>order.statusHistory.push\<close>. \<^verbatim>\<open>orderSchema\<close> declares no
  \<^verbatim>\<open>statusHistory\<close>, so \<^verbatim>\<open>order.statusHistory\<close> is \<^verbatim>\<open>undefined\<close> and the call throws a
  \<^verbatim>\<open>TypeError\<close> before \<^verbatim>\<open>order.save()\<close>: the assignment is lost and lines 177 to 195
  (save, notification, response) never run. \<^verbatim>\<open>order.shop.toString()\<close> and
  \<^verbatim>\<open>req.user.shop.toString()\<close> throw in the same way when the reference is missing.
\<close>

definition updateOrderStatus ::
  "jsdate \<Rightarrow> req_user \<Rightarrow> oid \<Rightarrow> string \<Rightarrow> store \<Rightarrow> store \<times> order_doc outcome" where
  "updateOrderStatus now user orderId newStatus s =
     (case findById (orders s) orderId of
        None \<Rightarrow> (s, Next (ErrorResponse ''Order not found'' 404))
      | Some order \<Rightarrow>
          (case o_shop order of
             None \<Rightarrow> (s, TypeError)
           | Some orderShop \<Rightarrow>
               (case u_shop user of
                  None \<Rightarrow> (s, TypeError)
                | Some userShop \<Rightarrow>
                    if orderShop \<noteq> userShop then
                      (s, Next (ErrorResponse ''Not authorized to update this order'' 401))
                    else (s, TypeError))))"

subsection \<open>\<^verbatim>\<open>cancelOrder\<close>\<close>

text \<open>
  Lines 201 to 209. For an order that exists the handler evaluates
  \<^verbatim>\<open>order.user.toString()\<close>. \<^verbatim>\<open>orderSchema\<close> declares \<^verbatim>\<open>customer\<close> and no \<^verbatim>\<open>user\<close>, so
  \<^verbatim>\<open>order.user\<close> is \<^verbatim>\<open>undefined\<close> and the call throws a \<^verbatim>\<open>TypeError\<close>: the ownership
  check, the status check, the change of status and the loop that restores the stock
  (lines 210 to 244) never run.
\<close>

definition cancelOrder ::
  "jsdate \<Rightarrow> req_user \<Rightarrow> oid \<Rightarrow> store \<Rightarrow> store \<times> order_doc outcome" where
  "cancelOrder now user orderId s =
     (case findById (orders s) orderId of
        None \<Rightarrow> (s, Next (ErrorResponse ''Order not found'' 404))
      | Some order \<Rightarrow> (s, TypeError))"

subsection \<open>\<^verbatim>\<open>rateOrder\<close>\<close>

text \<open>
  Lines 375 to 389. The rating of the body may be absent (\<open>None\<close>): \<^verbatim>\<open>undefined < 1\<close> and
  \<^verbatim>\<open>undefined > 5\<close> are both false, so an absent rating passes the range check. For an
  order that exists the handler then evaluates \<^verbatim>\<open>order.user.toString()\<close>, which throws a
  \<^verbatim>\<open>TypeError\<close> as in \<^verbatim>\<open>cancelOrder\<close>: the ownership, status and already-rated checks,
  the assignment of the rating and the recomputation of the shop's rating (lines 390 to
  430) never run.
\<close>

definition rateOrder ::
  "jsdate \<Rightarrow> req_user \<Rightarrow> oid \<Rightarrow> number option \<Rightarrow> string option \<Rightarrow> store \<Rightarrow> store \<times> order_doc outcome" where
  "rateOrder now user orderId rating reviewText s =
     (if (case rating of None \<Rightarrow> False | Some r \<Rightarrow> r < 1 \<or> r > 5) then
        (s, Next (ErrorResponse ''Rating must be between 1 and 5'' 400))
      else
        case findById (orders s) orderId of
          None \<Rightarrow> (s, Next (ErrorResponse ''Order not found'' 404))
        | Some order \<Rightarrow> (s, TypeError))"

subsection \<open>Quantities used in the statements\<close>

text \<open>
  The stock of product \<open>k\<close> in a product collection (\<open>None\<close> when there is no such
  product), and the total quantity a list of requested items asks of product \<open>k\<close>.
\<close>

definition stock_of :: "products \<Rightarrow> oid \<Rightarrow> number option" where
  "stock_of ps k = map_option stock (ps k)"

definition requested :: "oid \<Rightarrow> req_item list \<Rightarrow> number" where
  "requested k its = sum_list (map r_quantity (filter (\<lambda>it. ref_id (r_product it) = k) its))"
subsection \<open>The order number as the specification words it\<close>

text \<open>
  Two and four decimal digits of a number, and the specification's order number:
  \<^verbatim>\<open>ORD\<close>, the 2-digit year, the 2-digit month, the 2-digit day and a 4-digit sequence.
  It is compared with what the hook of the model computes.
\<close>

definition two_digits :: "nat \<Rightarrow> string" where
  "two_digits n = [digit_char (n div 10 mod 10), digit_char (n mod 10)]"

definition four_digits :: "nat \<Rightarrow> string" where
  "four_digits n = [digit_char (n div 1000 mod 10), digit_char (n div 100 mod 10),
                    digit_char (n div 10 mod 10), digit_char (n mod 10)]"

definition spec_orderNumber :: "jsdate \<Rightarrow> nat \<Rightarrow> string" where
  "spec_orderNumber date n =
     ''ORD'' @ two_digits (fullYear date mod 100) @ two_digits (monthIndex date + 1) @
     two_digits (dayOfMonth date) @ four_digits n"

subsection \<open>Example data\<close>

text \<open>
  A small shop: milk (3 in stock, 100 each) and rice (1 in stock, 300 each), both sold by
  shop 7; a second shop 8; the customer Alice; and her requests: two units of milk; two of
  milk and then five of rice; three of milk and one of rice, worth 600; two of milk with a
  product object that names shop 8; two of milk by the product's id alone.
\<close>

definition milk :: product_doc where
  "milk = \<lparr>p_shop = 7, p_name = ''Milk'', price = 100, stock = 3, isAvailable = True, isActive = True\<rparr>"
definition rice :: product_doc where
  "rice = \<lparr>p_shop = 7, p_name = ''Rice'', price = 300, stock = 1, isAvailable = True, isActive = True\<rparr>"
definition corner_shop :: shop_doc where
  "corner_shop = \<lparr>owner = 9, s_name = ''Corner'', s_rating = 0, totalRatings = 0\<rparr>"
definition other_shop :: shop_doc where
  "other_shop = \<lparr>owner = 10, s_name = ''Other'', s_rating = 0, totalRatings = 0\<rparr>"
definition day0 :: jsdate where
  "day0 = \<lparr>fullYear = 2024, monthIndex = 2, dayOfMonth = 5, msOfDay = 0\<rparr>"
definition store0 :: store where
  "store0 = \<lparr>products = [1 \<mapsto> milk, 2 \<mapsto> rice], shops = [7 \<mapsto> corner_shop, 8 \<mapsto> other_shop],
             orders = [], notifications = []\<rparr>"
definition alice :: req_user where
  "alice = \<lparr>u_id = 4, u_shop = None, u_address = Some ''12 Hill Road''\<rparr>"
definition two_milk :: create_body where
  "two_milk = \<lparr>items = Some [\<lparr>r_product = ObjRef 1 (Some 7), r_quantity = 2\<rparr>],
               deliveryAddress = None, deliveryInstructions = None, paymentMethod = Some ''cod''\<rparr>"
definition milk_then_rice :: create_body where
  "milk_then_rice = \<lparr>items = Some [\<lparr>r_product = ObjRef 1 (Some 7), r_quantity = 2\<rparr>,
                                    \<lparr>r_product = ObjRef 2 (Some 7), r_quantity = 5\<rparr>],
               deliveryAddress = None, deliveryInstructions = None, paymentMethod = Some ''cod''\<rparr>"
definition three_milk_and_rice :: create_body where
  "three_milk_and_rice = \<lparr>items = Some [\<lparr>r_product = ObjRef 1 (Some 7), r_quantity = 3\<rparr>,
                                         \<lparr>r_product = ObjRef 2 (Some 7), r_quantity = 1\<rparr>],
               deliveryAddress = None, deliveryInstructions = None, paymentMethod = Some ''cod''\<rparr>"
definition two_milk_other_shop :: create_body where
  "two_milk_other_shop = \<lparr>items = Some [\<lparr>r_product = ObjRef 1 (Some 8), r_quantity = 2\<rparr>],
               deliveryAddress = None, deliveryInstructions = None, paymentMethod = Some ''cod''\<rparr>"
definition two_milk_by_id :: create_body where
  "two_milk_by_id = \<lparr>items = Some [\<lparr>r_product = IdRef 1, r_quantity = 2\<rparr>],
               deliveryAddress = None, deliveryInstructions = None, paymentMethod = Some ''cod''\<rparr>"

text \<open>
  An order document that satisfies the schema: Alice's order of two units of milk at shop
  7, created on 5 March 2024. A store that holds three such orders (the first delivered
  and rated 5, the second delivered and not rated, the third pending), one unit of milk
  in stock, and shop 7 carrying a rating of 2 over 3 ratings. Bob is
  another customer; the two shopkeepers own shops 7 and 8. A new document that satisfies
  the schema, and a day on which 9999 orders were already created.
\<close>

definition seeded_order :: order_doc where
  "seeded_order =
     \<lparr>o_id = 1, orderNumber = Some ''ORD2403050001'', customer = Some 4, o_shop = Some 7,
      o_items = [\<lparr>i_product = IdRef 1, i_quantity = 2, i_price = 100, i_total = 200\<rparr>],
      subtotal = Some 200, deliveryCharge = 50, tax = 0, discount = 0, total = Some 250,
      status = ''pending'', o_paymentMethod = ''cod'', paymentStatus = ''pending'',
      deliveryType = Some ''home_delivery'', o_deliveryAddress = Some ''12 Hill Road'',
      o_deliveryInstructions = None, actualDeliveryTime = None, orderNotes = None,
      o_rating = None, review = None, isRated = False, createdAt = day0\<rparr>"

definition seeded_store :: store where
  "seeded_store =
     \<lparr>products = [1 \<mapsto> milk\<lparr>stock := 1\<rparr>],
      shops = [7 \<mapsto> corner_shop\<lparr>s_rating := 2, totalRatings := 3\<rparr>],
      orders = [seeded_order\<lparr>status := ''delivered'', o_rating := Some 5\<rparr>,
                seeded_order\<lparr>o_id := 2, status := ''delivered''\<rparr>,
                seeded_order\<lparr>o_id := 3\<rparr>],
      notifications = []\<rparr>"

definition bob :: req_user where
  "bob = \<lparr>u_id = 6, u_shop = None, u_address = None\<rparr>"

definition shopkeeper :: req_user where
  "shopkeeper = \<lparr>u_id = 9, u_shop = Some 7, u_address = None\<rparr>"

definition other_shopkeeper :: req_user where
  "other_shopkeeper = \<lparr>u_id = 10, u_shop = Some 8, u_address = None\<rparr>"

definition new_document :: order_doc where
  "new_document = seeded_order\<lparr>o_id := 4, orderNumber := Some ''new''\<rparr>"

definition busy_day :: "order_doc list" where
  "busy_day = map (\<lambda>i. seeded_order\<lparr>o_id := Suc i\<rparr>) [0..<9999]"
section \<open>Auxiliary facts\<close>

subsection \<open>Decimal strings\<close>

lemma replicate_numeral: "replicate (numeral v) x = x # replicate (numeral v - 1) x"
  by (simp add: numeral_eq_Suc)

lemma digit_char_simps:
  "digit_char 0 = CHR ''0''" "digit_char 1 = CHR ''1''" "digit_char 2 = CHR ''2''"
  "digit_char 3 = CHR ''3''"
  by (simp_all add: digit_char_def)

lemma toString_nat_small: "n < 10 \<Longrightarrow> toString_nat n = [digit_char n]"
  by (simp add: toString_nat.simps)

lemma toString_nat_step: "10 \<le> n \<Longrightarrow> toString_nat n = toString_nat (n div 10) @ [digit_char (n mod 10)]"
  by (subst toString_nat.simps) simp

lemma toString_nat_last: "\<exists>xs. toString_nat n = xs @ [digit_char (n mod 10)]"
  by (cases "n < 10") (auto simp: toString_nat_small toString_nat_step)

lemma length_toString_nat_lower: "10 ^ k \<le> n \<Longrightarrow> k < length (toString_nat n)"
proof (induction k arbitrary: n)
  case 0
  then show ?case using toString_nat_last[of n] by auto
next
  case (Suc k)
  have "(10::nat) \<le> 10 * 10 ^ k" by simp
  moreover from Suc.prems have "10 * 10 ^ k \<le> n" by simp
  ultimately have a: "10 \<le> n" by (rule order_trans)
  from Suc.prems have b: "10 ^ k \<le> n div 10" by (simp add: less_eq_div_iff_mult_less_eq)
  from Suc.IH[OF b] a show ?case by (simp add: toString_nat_step)
qed

lemma div_10_10: "n div 10 div 10 = n div 100" for n :: nat
  using div_mult2_eq[of n 10 10] by simp

lemma div_10_100: "n div 10 div 100 = n div 1000" for n :: nat
  using div_mult2_eq[of n 10 100] by simp

lemma toString_nat_2:
  assumes "10 \<le> n" "n < 100"
  shows "toString_nat n = [digit_char (n div 10), digit_char (n mod 10)]"
proof -
  have "n div 10 < 10" using assms by simp
  then show ?thesis using assms by (simp add: toString_nat_step toString_nat_small)
qed

lemma toString_nat_3:
  assumes "100 \<le> n" "n < 1000"
  shows "toString_nat n = [digit_char (n div 100), digit_char (n div 10 mod 10), digit_char (n mod 10)]"
proof -
  have "10 \<le> n div 10" "n div 10 < 100" "10 \<le> n" using assms by simp_all
  then show ?thesis by (simp add: toString_nat_step[of n] toString_nat_2 div_10_10)
qed

lemma toString_nat_4:
  assumes "1000 \<le> n" "n < 10000"
  shows "toString_nat n = [digit_char (n div 1000), digit_char (n div 100 mod 10),
                           digit_char (n div 10 mod 10), digit_char (n mod 10)]"
proof -
  have "100 \<le> n div 10" "n div 10 < 1000" "10 \<le> n" using assms by simp_all
  then show ?thesis
    by (simp add: toString_nat_step[of n] toString_nat_3 div_10_10 div_10_100)
qed

lemma padStart_2:
  assumes "n < 100"
  shows "padStart 2 (CHR ''0'') (toString_nat n) = two_digits n"
proof (cases "n < 10")
  case True
  then show ?thesis
    by (simp add: padStart_def toString_nat_small two_digits_def digit_char_simps)
next
  case False
  then have "10 \<le> n" "n div 10 < 10" using assms by simp_all
  then show ?thesis using assms
    by (simp add: padStart_def toString_nat_2 two_digits_def)
qed

lemma padStart_4:
  assumes "n < 10000"
  shows "padStart 4 (CHR ''0'') (toString_nat n) = four_digits n"
proof -
  consider "n < 10" | "10 \<le> n" "n < 100" | "100 \<le> n" "n < 1000" | "1000 \<le> n"
    by linarith
  then show ?thesis
  proof cases
    case 1
    then show ?thesis
      by (simp add: padStart_def toString_nat_small four_digits_def digit_char_simps
            replicate_numeral)
  next
    case 2
    then have "n div 10 < 10" by simp
    then show ?thesis using 2
      by (simp add: padStart_def toString_nat_2 four_digits_def digit_char_simps
            replicate_numeral)
  next
    case 3
    then have "n div 100 < 10" by simp
    then show ?thesis using 3
      by (simp add: padStart_def toString_nat_3 four_digits_def digit_char_simps
            replicate_numeral)
  next
    case 4
    have "n div 1000 < 10" using assms by simp
    then show ?thesis using 4 assms
      by (simp add: padStart_def toString_nat_4 four_digits_def)
  qed
qed

lemma mod_100_digits: "n mod 100 div 10 mod 10 = n div 10 mod 10" "n mod 100 mod 10 = n mod 10"
  for n :: nat
proof -
  have "n mod 100 div 10 = n div 10 mod 10"
    using mod_mult2_eq[of n 10 10] by simp
  then show "n mod 100 div 10 mod 10 = n div 10 mod 10" by simp
  show "n mod 100 mod 10 = n mod 10"
    using mod_mod_cancel[of 10 100 n] by simp
qed

lemma slice_last_year:
  assumes "10 \<le> n"
  shows "slice_last 2 (toString_nat n) = two_digits (n mod 100)"
proof -
  obtain xs where xs: "toString_nat (n div 10) = xs @ [digit_char (n div 10 mod 10)]"
    using toString_nat_last by blast
  have "toString_nat n = xs @ [digit_char (n div 10 mod 10), digit_char (n mod 10)]"
    using assms xs by (simp add: toString_nat_step)
  then show ?thesis by (simp add: slice_last_def two_digits_def mod_100_digits)
qed

subsection \<open>The loop over the requested items\<close>

lemma reserveItem_InrD:
  assumes "reserveItem ps item = Inr (ps', oi)"
  shows "\<exists>p. ps (ref_id (r_product item)) = Some p \<and> isActive p \<and> r_quantity item \<le> stock p \<and>
           ps' = product_save ps (ref_id (r_product item)) (p\<lparr>stock := stock p - r_quantity item\<rparr>) \<and>
           oi = \<lparr>i_product = r_product item, i_quantity = r_quantity item,
                 i_price = price p, i_total = price p * r_quantity item\<rparr>"
  using assms by (auto simp: reserveItem_def split: option.splits if_splits)

lemma reserveItem_stock_of:
  assumes "reserveItem ps item = Inr (ps', oi)"
  shows "stock_of ps' k = map_option (\<lambda>x. x - requested k [item]) (stock_of ps k)"
  using reserveItem_InrD[OF assms]
  by (auto simp: stock_of_def requested_def product_save_def product_pre_save_def option.map_ident)

lemma reserveItem_price:
  assumes "reserveItem ps item = Inr (ps', oi)"
  shows "map_option price (ps' k) = map_option price (ps k)"
  using reserveItem_InrD[OF assms]
  by (auto simp: product_save_def product_pre_save_def)

lemma requested_Cons: "requested k (it # its) = requested k [it] + requested k its"
  by (simp add: requested_def)

lemma reserve_loop_stock_of:
  "reserve_loop ps its tot ois = (ps', r) \<Longrightarrow> r = Inr x \<Longrightarrow>
   stock_of ps' k = map_option (\<lambda>x. x - requested k its) (stock_of ps k)"
proof (induction its arbitrary: ps tot ois)
  case Nil
  then show ?case by (simp add: requested_def option.map_ident)
next
  case (Cons it its)
  from Cons.prems obtain ps1 oi where
    r1: "reserveItem ps it = Inr (ps1, oi)" and
    r2: "reserve_loop ps1 its (tot + i_total oi) (ois @ [oi]) = (ps', r)"
    by (auto split: sum.splits)
  have "stock_of ps' k = map_option (\<lambda>x. x - requested k its) (stock_of ps1 k)"
    using Cons.IH[OF r2 Cons.prems(2)] .
  also have "stock_of ps1 k = map_option (\<lambda>x. x - requested k [it]) (stock_of ps k)"
    using reserveItem_stock_of[OF r1] .
  finally show ?case
    by (simp add: option.map_comp o_def requested_Cons[of k it its] algebra_simps)
qed

lemma reserve_loop_items:
  "reserve_loop ps its tot ois = (ps', Inr (tot', ois')) \<Longrightarrow>
   \<exists>new. ois' = ois @ new \<and> tot' = tot + sum_list (map i_total new) \<and>
         map i_product new = map r_product its \<and> map i_quantity new = map r_quantity its \<and>
         (\<forall>oi \<in> set new. i_total oi = i_price oi * i_quantity oi \<and>
            map_option price (ps (ref_id (i_product oi))) = Some (i_price oi))"
proof (induction its arbitrary: ps tot ois)
  case Nil
  then show ?case by simp
next
  case (Cons it its)
  from Cons.prems obtain ps1 oi where
    r1: "reserveItem ps it = Inr (ps1, oi)" and
    r2: "reserve_loop ps1 its (tot + i_total oi) (ois @ [oi]) = (ps', Inr (tot', ois'))"
    by (auto split: sum.splits)
  from Cons.IH[OF r2] obtain new where
    n: "ois' = (ois @ [oi]) @ new" "tot' = tot + i_total oi + sum_list (map i_total new)"
       "map i_product new = map r_product its" "map i_quantity new = map r_quantity its"
       "\<forall>x \<in> set new. i_total x = i_price x * i_quantity x \<and>
            map_option price (ps1 (ref_id (i_product x))) = Some (i_price x)"
    by blast
  from reserveItem_InrD[OF r1] obtain p where
    p: "ps (ref_id (r_product it)) = Some p"
       "oi = \<lparr>i_product = r_product it, i_quantity = r_quantity it,
                 i_price = price p, i_total = price p * r_quantity it\<rparr>"
    by blast
  have "\<forall>x \<in> set (oi # new). i_total x = i_price x * i_quantity x \<and>
            map_option price (ps (ref_id (i_product x))) = Some (i_price x)"
    using n(5) p reserveItem_price[OF r1] by auto
  then show ?case
    using n p by (intro exI[of _ "oi # new"]) (simp add: algebra_simps)
qed

lemma reserve_loop_append:
  "reserve_loop ps (pre @ rest) tot ois =
     (case reserve_loop ps pre tot ois of
        (ps1, Inl e) \<Rightarrow> (ps1, Inl e)
      | (ps1, Inr (t, acc)) \<Rightarrow> reserve_loop ps1 rest t acc)"
  by (induction pre arbitrary: ps tot ois) (auto split: sum.splits)

subsection \<open>What \<^verbatim>\<open>Order.create\<close> does with the controller's object\<close>

lemma order_validate_new_Order:
  "''orderNumber'' \<in> set (order_validate (new_Order now os f))"
  "''customer'' \<in> set (order_validate (new_Order now os f))"
  "''subtotal'' \<in> set (order_validate (new_Order now os f))"
  "''deliveryType'' \<in> set (order_validate (new_Order now os f))"
  by (simp_all add: order_validate_def new_Order_def check_def)

lemma Order_create_rejects:
  "Order_create now os f = Inl (order_validate (new_Order now os f))"
proof -
  obtain path paths where "order_validate (new_Order now os f) = path # paths"
    using order_validate_new_Order(2)[of now os f]
    by (cases "order_validate (new_Order now os f)") auto
  then show ?thesis by (simp add: Order_create_def Order_save_new_def)
qed

lemma createOrder_never_succeeds:
  "orders (fst (createOrder now user b s)) = orders s \<and>
   shops (fst (createOrder now user b s)) = shops s \<and>
   notifications (fst (createOrder now user b s)) = notifications s \<and>
   snd (createOrder now user b s) \<noteq> Response c x"
  by (simp add: createOrder_def Order_create_rejects
        split: option.splits list.splits prod.splits sum.splits del: reserve_loop.simps)

lemma createOrder_fields_total:
  assumes "reserve_loop ps its 0 [] = (ps', Inr (itemsTotal, orderItems))"
  shows "f_items (createOrder_fields user b itemsTotal first orderItems) = orderItems \<and>
         f_total (createOrder_fields user b itemsTotal first orderItems) =
           sum_list (map i_total orderItems) +
           f_deliveryFee (createOrder_fields user b itemsTotal first orderItems) \<and>
         f_deliveryFee (createOrder_fields user b itemsTotal first orderItems) =
           (if sum_list (map i_total orderItems) > 500 then 0 else 50) \<and>
         (\<forall>oi \<in> set orderItems. i_total oi = i_price oi * i_quantity oi)"
proof -
  from reserve_loop_items[OF assms] have
    "itemsTotal = sum_list (map i_total orderItems)"
    "\<forall>oi \<in> set orderItems. i_total oi = i_price oi * i_quantity oi"
    by auto
  then show ?thesis by (simp add: createOrder_fields_def Let_def)
qed

lemma createOrder_fields_shop:
  "f_shop (createOrder_fields user b itemsTotal first orderItems) = ref_shop (i_product first)"
  by (simp add: createOrder_fields_def Let_def)

subsection \<open>The handlers that read an order\<close>

lemma updateOrderStatus_never_succeeds:
  "fst (updateOrderStatus now user orderId newStatus s) = s \<and>
   snd (updateOrderStatus now user orderId newStatus s) \<noteq> Response c x"
  by (simp add: updateOrderStatus_def split: option.splits)

lemma cancelOrder_never_succeeds:
  "fst (cancelOrder now user orderId s) = s \<and>
   snd (cancelOrder now user orderId s) \<noteq> Response c x"
  by (simp add: cancelOrder_def split: option.splits)

lemma rateOrder_never_succeeds:
  "fst (rateOrder now user orderId rating reviewText s) = s \<and>
   snd (rateOrder now user orderId rating reviewText s) \<noteq> Response c x"
  by (simp add: rateOrder_def split: option.splits)

subsection \<open>Evaluating the examples\<close>

lemmas example_defs = milk_def rice_def corner_shop_def other_shop_def day0_def store0_def
  alice_def two_milk_def milk_then_rice_def
lemmas handler_defs = createOrder_def reserveItem_def product_save_def product_pre_save_def
  Order_create_def Order_save_new_def new_Order_def order_validate_def check_def
  createOrder_fields_def order_pre_save_def fresh_id_def findById_def
  countDocuments_today_def created_today_def padStart_def slice_last_def toString_nat.simps
  digit_char_def stock_of_def Let_def replicate_numeral
lemmas seeded_defs = seeded_store_def seeded_order_def findById_def alice_def bob_def
  shopkeeper_def other_shopkeeper_def

lemma seeded_order_valid: "order_validate seeded_order = []"
  by (simp add: order_validate_def check_def seeded_order_def)

lemma new_document_valid: "order_validate new_document = []"
  by (simp add: order_validate_def check_def new_document_def seeded_order_def)

lemma busy_day_count: "countDocuments_today day0 busy_day = 9999"
  by (simp add: countDocuments_today_def busy_day_def created_today_def seeded_order_def)

lemma order_pre_save_orderNumber:
  "orderNumber (order_pre_save True now os d) =
     Some (''ORD'' @ slice_last 2 (toString_nat (fullYear now)) @
           padStart 2 (CHR ''0'') (toString_nat (monthIndex now + 1)) @
           padStart 2 (CHR ''0'') (toString_nat (dayOfMonth now)) @
           padStart 4 (CHR ''0'') (toString_nat (countDocuments_today now os + 1)))"
  by (simp add: order_pre_save_def Let_def)
section \<open>Properties\<close>

text \<open>
  C1. No order creation succeeds, so there is no persisted order for the equation to hold
  of. Alice asks for two units of milk: the loop reserves them (stock 3 to 1) with a
  subtotal of 200; the object for \<^verbatim>\<open>Order.create\<close> carries the delivery fee 50 and the
  total 250 = 200 + 50 (for three of milk and one of rice: subtotal 600, fee 0, total
  600); \<^verbatim>\<open>Order.create\<close> rejects it, because the document has no \<^verbatim>\<open>orderNumber\<close>,
  \<^verbatim>\<open>customer\<close>, \<^verbatim>\<open>subtotal\<close> or \<^verbatim>\<open>deliveryType\<close>; the handler ends in that
  \<^verbatim>\<open>ValidationError\<close>, no order is stored, and the milk stays reserved.
\<close>

theorem createOrder_rejected_by_validation:
  "reserve_loop (products store0) [\<lparr>r_product = ObjRef 1 (Some 7), r_quantity = 2\<rparr>] 0 [] =
     ([1 \<mapsto> milk\<lparr>stock := 1\<rparr>, 2 \<mapsto> rice],
      Inr (200, [\<lparr>i_product = ObjRef 1 (Some 7), i_quantity = 2, i_price = 100, i_total = 200\<rparr>])) \<and>
   createOrder_fields alice two_milk 200
       \<lparr>i_product = ObjRef 1 (Some 7), i_quantity = 2, i_price = 100, i_total = 200\<rparr>
       [\<lparr>i_product = ObjRef 1 (Some 7), i_quantity = 2, i_price = 100, i_total = 200\<rparr>] =
     \<lparr>f_user = 4,
      f_items = [\<lparr>i_product = ObjRef 1 (Some 7), i_quantity = 2, i_price = 100, i_total = 200\<rparr>],
      f_total = 250, f_deliveryFee = 50, f_deliveryAddress = Some ''12 Hill Road'',
      f_deliveryInstructions = None, f_paymentMethod = Some ''cod'', f_shop = Some 7\<rparr> \<and>
   createOrder day0 alice two_milk store0 =
     (store0\<lparr>products := [1 \<mapsto> milk\<lparr>stock := 1\<rparr>, 2 \<mapsto> rice]\<rparr>,
      ValidationError [''orderNumber'', ''customer'', ''subtotal'', ''deliveryType'']) \<and>
   createOrder day0 alice three_milk_and_rice store0 =
     (store0\<lparr>products := [1 \<mapsto> milk\<lparr>stock := 0, isAvailable := False\<rparr>,
                            2 \<mapsto> rice\<lparr>stock := 0, isAvailable := False\<rparr>]\<rparr>,
      ValidationError [''orderNumber'', ''customer'', ''subtotal'', ''deliveryType''])"
  by (simp add: example_defs handler_defs three_milk_and_rice_def fun_upd_twist)
text \<open>
  C2. A reservation of \<open>q\<close> units of a product succeeds exactly when the product exists, is
  active and has at least \<open>q\<close> in stock; it then stores the product with its stock lowered
  by exactly \<open>q\<close> and with \<open>isAvailable\<close> recomputed as \<open>stock > 0\<close>, changing no other
  field and no other product, and the line item carries the product's price. Otherwise it
  fails: status 404 "not found" for a missing product, status
  400 "is not available" for an inactive one, status 400 "Insufficient stock" when the
  stock is below \<open>q\<close>.
\<close>

theorem reserveItem_decrements_stock:
  "(case ps (ref_id (r_product item)) of
      None \<Rightarrow>
        reserveItem ps item =
          Inl (ErrorResponse (''Product '' @ ref_string (r_product item) @ '' not found'') 404)
    | Some p \<Rightarrow>
        (\<not> isActive p \<longrightarrow>
           reserveItem ps item =
             Inl (ErrorResponse (''Product '' @ p_name p @ '' is not available'') 400)) \<and>
        (isActive p \<and> stock p < r_quantity item \<longrightarrow>
           reserveItem ps item = Inl (ErrorResponse (''Insufficient stock for '' @ p_name p) 400)) \<and>
        (isActive p \<and> r_quantity item \<le> stock p \<longrightarrow>
           (\<exists>ps' oi p'. reserveItem ps item = Inr (ps', oi) \<and>
              ps' (ref_id (r_product item)) = Some p' \<and>
              stock p' = stock p - r_quantity item \<and>
              isAvailable p' = (stock p' > 0) \<and>
              p' = p\<lparr>stock := stock p', isAvailable := isAvailable p'\<rparr> \<and>
              i_price oi = price p \<and> i_total oi = price p * r_quantity item \<and>
              (\<forall>k. k \<noteq> ref_id (r_product item) \<longrightarrow> ps' k = ps k))))"
  by (auto simp: reserveItem_def product_save_def product_pre_save_def split: option.splits)

theorem reserveItem_decrements_stock_witness:
  "reserveItem (products store0) \<lparr>r_product = IdRef 1, r_quantity = 3\<rparr> =
     Inr ([1 \<mapsto> milk\<lparr>stock := 0, isAvailable := False\<rparr>, 2 \<mapsto> rice],
          \<lparr>i_product = IdRef 1, i_quantity = 3, i_price = 100, i_total = 300\<rparr>) \<and>
   reserveItem (products store0) \<lparr>r_product = IdRef 1, r_quantity = 4\<rparr> =
     Inl (ErrorResponse ''Insufficient stock for Milk'' 400) \<and>
   reserveItem ((products store0)(1 \<mapsto> milk\<lparr>isActive := False\<rparr>)) \<lparr>r_product = IdRef 1, r_quantity = 1\<rparr> =
     Inl (ErrorResponse ''Product Milk is not available'' 400) \<and>
   reserveItem (products store0) \<lparr>r_product = IdRef 5, r_quantity = 1\<rparr> =
     Inl (ErrorResponse ''Product 5 not found'' 404)"
  using reserveItem_decrements_stock[of "products store0" "\<lparr>r_product = IdRef 1, r_quantity = 3\<rparr>"]
    reserveItem_decrements_stock[of "products store0" "\<lparr>r_product = IdRef 1, r_quantity = 4\<rparr>"]
    reserveItem_decrements_stock[of "(products store0)(1 \<mapsto> milk\<lparr>isActive := False\<rparr>)" "\<lparr>r_product = IdRef 1, r_quantity = 1\<rparr>"]
    reserveItem_decrements_stock[of "products store0" "\<lparr>r_product = IdRef 5, r_quantity = 1\<rparr>"]
  by (simp add: example_defs handler_defs fun_upd_twist)

text \<open>
  C3. No cancellation succeeds, so no stock is restored. Order 3 of the seeded store is
  Alice's, is pending, and holds two units of milk, of which one is in stock. Alice
  cancels it: the handler throws the \<^verbatim>\<open>TypeError\<close> of \<^verbatim>\<open>order.user.toString()\<close>, and the
  store is as before: the order is still pending and the stock of milk is still 1, not 3.
\<close>

theorem cancelOrder_throws_before_restoring:
  "findById (orders seeded_store) 3 = Some (seeded_order\<lparr>o_id := 3\<rparr>) \<and>
   customer (seeded_order\<lparr>o_id := 3\<rparr>) = Some (u_id alice) \<and>
   status (seeded_order\<lparr>o_id := 3\<rparr>) = ''pending'' \<and>
   o_items (seeded_order\<lparr>o_id := 3\<rparr>) =
     [\<lparr>i_product = IdRef 1, i_quantity = 2, i_price = 100, i_total = 200\<rparr>] \<and>
   stock_of (products seeded_store) 1 = Some 1 \<and>
   cancelOrder day0 alice 3 seeded_store = (seeded_store, TypeError)"
  by (simp add: cancelOrder_def seeded_defs stock_of_def milk_def)
text \<open>
  C4. Only the first two answers of \<^verbatim>\<open>rateOrder\<close> can be reached: a rating outside 1 to 5
  is refused with "Rating must be between 1 and 5" (400), and a missing order with
  "Order not found" (404), also when the body carries no rating at all. For every order
  that exists the handler throws the \<^verbatim>\<open>TypeError\<close> of \<^verbatim>\<open>order.user.toString()\<close> and
  leaves the store alone: Alice rating her pending order 3, Alice rating her delivered
  and already rated order 1, and Bob rating Alice's order 2 all end in it, where
  "Order must be delivered before rating", "Order already rated" and
  "Not authorized to rate this order" were to be the answers.
\<close>

theorem rateOrder_throws_on_every_order:
  "rateOrder day0 alice 3 (Some 4) None seeded_store = (seeded_store, TypeError) \<and>
   rateOrder day0 alice 1 (Some 4) None seeded_store = (seeded_store, TypeError) \<and>
   rateOrder day0 bob 2 (Some 4) None seeded_store = (seeded_store, TypeError) \<and>
   rateOrder day0 alice 9 (Some 4) None seeded_store =
     (seeded_store, Next (ErrorResponse ''Order not found'' 404)) \<and>
   rateOrder day0 alice 9 None None seeded_store =
     (seeded_store, Next (ErrorResponse ''Order not found'' 404)) \<and>
   rateOrder day0 alice 3 (Some 6) None seeded_store =
     (seeded_store, Next (ErrorResponse ''Rating must be between 1 and 5'' 400)) \<and>
   map status (orders seeded_store) = [''delivered'', ''delivered'', ''pending''] \<and>
   map o_rating (orders seeded_store) = [Some 5, None, None] \<and>
   map customer (orders seeded_store) = [Some (u_id alice), Some (u_id alice), Some (u_id alice)]"
  by (simp add: rateOrder_def seeded_defs)
text \<open>
  C5. When the items \<open>pre\<close> are reserved one after the other and the next item \<open>bad\<close> is
  refused, \<^verbatim>\<open>createOrder\<close> reports that item's error and returns the store with the
  products as the reservations of \<open>pre\<close> left them: each product's stock is its original
  stock minus what \<open>pre\<close> requested of it. No order is stored and nothing is restored.
\<close>

theorem createOrder_partial_failure_persists:
  assumes "items b = Some (pre @ bad # rest)"
    and "reserve_loop (products s) pre 0 [] = (ps1, Inr (t, ois))"
    and "reserveItem ps1 bad = Inl e"
  shows "createOrder now user b s = (s\<lparr>products := ps1\<rparr>, Next e) \<and>
         (\<forall>k. stock_of ps1 k = map_option (\<lambda>x. x - requested k pre) (stock_of (products s) k))"
proof -
  have loop: "reserve_loop (products s) (pre @ bad # rest) 0 [] = (ps1, Inl e)"
    using assms(2,3) by (simp add: reserve_loop_append)
  obtain it its where c: "pre @ bad # rest = it # its" by (cases pre) auto
  have "createOrder now user b s = (s\<lparr>products := ps1\<rparr>, Next e)"
    unfolding createOrder_def assms(1) c using loop[unfolded c]
    by (simp del: reserve_loop.simps)
  moreover have "\<forall>k. stock_of ps1 k = map_option (\<lambda>x. x - requested k pre) (stock_of (products s) k)"
    using reserve_loop_stock_of[OF assms(2)] by blast
  ultimately show ?thesis by blast
qed

theorem createOrder_partial_failure_persists_witness:
  "createOrder day0 alice milk_then_rice store0 =
     (store0\<lparr>products := [1 \<mapsto> milk\<lparr>stock := 1\<rparr>, 2 \<mapsto> rice]\<rparr>,
      Next (ErrorResponse ''Insufficient stock for Rice'' 400)) \<and>
   stock_of (products store0) 1 = Some 3 \<and>
   stock_of [1 \<mapsto> milk\<lparr>stock := 1\<rparr>, 2 \<mapsto> rice] 1 = Some 1"
proof -
  have a: "items milk_then_rice = Some ([\<lparr>r_product = ObjRef 1 (Some 7), r_quantity = 2\<rparr>] @
             \<lparr>r_product = ObjRef 2 (Some 7), r_quantity = 5\<rparr> # [])"
    by (simp add: milk_then_rice_def)
  have b: "reserve_loop (products store0) [\<lparr>r_product = ObjRef 1 (Some 7), r_quantity = 2\<rparr>] 0 [] =
             ([1 \<mapsto> milk\<lparr>stock := 1\<rparr>, 2 \<mapsto> rice],
              Inr (200, [\<lparr>i_product = ObjRef 1 (Some 7), i_quantity = 2, i_price = 100, i_total = 200\<rparr>]))"
    by (simp add: example_defs handler_defs fun_upd_twist)
  have c: "reserveItem [1 \<mapsto> milk\<lparr>stock := 1\<rparr>, 2 \<mapsto> rice] \<lparr>r_product = ObjRef 2 (Some 7), r_quantity = 5\<rparr> =
             Inl (ErrorResponse ''Insufficient stock for Rice'' 400)"
    by (simp add: example_defs handler_defs)
  from createOrder_partial_failure_persists[OF a b c, of day0 alice]
  show ?thesis by (simp add: example_defs stock_of_def)
qed

text \<open>
  C6. \<^verbatim>\<open>updateOrderStatus\<close> refuses a missing order with "Order not found" (404) and the
  owner of another shop with "Not authorized to update this order" (401). For the owner
  of the order's shop it never succeeds: it throws the \<^verbatim>\<open>TypeError\<close> of
  \<^verbatim>\<open>order.statusHistory.push\<close> before saving. The owner of shop 7 sets the pending order 3
  to \<^verbatim>\<open>'delivered'\<close>: the store is as before, the order still pending, without history
  entry and without delivery time. The model's \<^verbatim>\<open>updateStatus\<close> method, which the
  handler does not call, would set status and delivery time on the same order.
\<close>

theorem updateOrderStatus_throws_before_saving:
  "updateOrderStatus day0 shopkeeper 3 ''delivered'' seeded_store = (seeded_store, TypeError) \<and>
   findById (orders seeded_store) 3 = Some (seeded_order\<lparr>o_id := 3\<rparr>) \<and>
   o_shop (seeded_order\<lparr>o_id := 3\<rparr>) = u_shop shopkeeper \<and>
   status (seeded_order\<lparr>o_id := 3\<rparr>) = ''pending'' \<and>
   actualDeliveryTime (seeded_order\<lparr>o_id := 3\<rparr>) = None \<and>
   updateOrderStatus day0 shopkeeper 9 ''delivered'' seeded_store =
     (seeded_store, Next (ErrorResponse ''Order not found'' 404)) \<and>
   updateOrderStatus day0 other_shopkeeper 3 ''delivered'' seeded_store =
     (seeded_store, Next (ErrorResponse ''Not authorized to update this order'' 401)) \<and>
   status (updateStatus day0 ''delivered'' [] (seeded_order\<lparr>o_id := 3\<rparr>)) = ''delivered'' \<and>
   actualDeliveryTime (updateStatus day0 ''delivered'' [] (seeded_order\<lparr>o_id := 3\<rparr>)) = Some day0"
  by (simp add: updateOrderStatus_def updateStatus_def seeded_defs)
text \<open>
  C7. No order creation succeeds, and the shop that \<^verbatim>\<open>createOrder\<close> hands to
  \<^verbatim>\<open>Order.create\<close> is not the shop of the product it looked up: it is the \<^verbatim>\<open>shop\<close> field
  of the first requested item's \<^verbatim>\<open>product\<close> value. Milk is sold by shop 7. For a request
  whose product object names shop 8 the object handed over has shop 8. For a request that
  carries the product's id alone it has no shop, and \<^verbatim>\<open>shop\<close> joins the paths that fail
  validation. Both requests end in the \<^verbatim>\<open>ValidationError\<close> with the milk reserved and no
  order stored.
\<close>

theorem createOrder_shop_from_request_value:
  "map_option p_shop (products store0 1) = Some 7 \<and>
   f_shop (createOrder_fields alice two_milk_other_shop 200
             \<lparr>i_product = ObjRef 1 (Some 8), i_quantity = 2, i_price = 100, i_total = 200\<rparr>
             [\<lparr>i_product = ObjRef 1 (Some 8), i_quantity = 2, i_price = 100, i_total = 200\<rparr>])
     = Some 8 \<and>
   createOrder day0 alice two_milk_other_shop store0 =
     (store0\<lparr>products := [1 \<mapsto> milk\<lparr>stock := 1\<rparr>, 2 \<mapsto> rice]\<rparr>,
      ValidationError [''orderNumber'', ''customer'', ''subtotal'', ''deliveryType'']) \<and>
   f_shop (createOrder_fields alice two_milk_by_id 200
             \<lparr>i_product = IdRef 1, i_quantity = 2, i_price = 100, i_total = 200\<rparr>
             [\<lparr>i_product = IdRef 1, i_quantity = 2, i_price = 100, i_total = 200\<rparr>])
     = None \<and>
   createOrder day0 alice two_milk_by_id store0 =
     (store0\<lparr>products := [1 \<mapsto> milk\<lparr>stock := 1\<rparr>, 2 \<mapsto> rice]\<rparr>,
      ValidationError [''orderNumber'', ''customer'', ''shop'', ''subtotal'', ''deliveryType''])"
  by (simp add: example_defs handler_defs two_milk_other_shop_def two_milk_by_id_def
        fun_upd_twist)
text \<open>
  C8. No rating succeeds, so no shop rating is recomputed. Alice rates her delivered,
  unrated order 2 of shop 7 with 4: the handler throws the \<^verbatim>\<open>TypeError\<close> of
  \<^verbatim>\<open>order.user.toString()\<close>, and the store is as before: order 2 has no rating and shop 7
  keeps its rating of 2, where the mean of the rated orders would be (5 + 4) / 2.
\<close>

theorem rateOrder_leaves_shop_rating:
  "findById (orders seeded_store) 2 =
     Some (seeded_order\<lparr>o_id := 2, status := ''delivered''\<rparr>) \<and>
   customer (seeded_order\<lparr>o_id := 2, status := ''delivered''\<rparr>) = Some (u_id alice) \<and>
   o_shop (seeded_order\<lparr>o_id := 2, status := ''delivered''\<rparr>) = Some 7 \<and>
   o_rating (seeded_order\<lparr>o_id := 2, status := ''delivered''\<rparr>) = None \<and>
   map_option s_rating (shops seeded_store 7) = Some 2 \<and>
   rateOrder day0 alice 2 (Some 4) (Some ''good'') seeded_store = (seeded_store, TypeError)"
  by (simp add: rateOrder_def seeded_defs corner_shop_def)
text \<open>
  C9. A new order document that passes validation is stored with the number the hook
  gives it. On a valid clock date that number is \<^verbatim>\<open>ORD\<close>, then the last two digits of the
  year, the month (counted from 1) and the day of the month as two digits each, then the
  count of the orders created that calendar day plus one, in decimal, padded with zeros on
  the left to at least four digits. While fewer than 9999 orders were created that day
  this is the specification's order number with its 4-digit sequence; after two earlier
  orders of the day the sequence is \<^verbatim>\<open>0003\<close>. From the 10000th order of a day on, the
  sequence is the plain decimal number, with five digits or more.
\<close>

theorem orderNumber_format:
  assumes "valid_date now" and "order_validate d = []"
  shows "Order_save_new now os d =
           Inr (os @ [order_pre_save True now os d], order_pre_save True now os d) \<and>
         orderNumber (order_pre_save True now os d) =
           Some (''ORD'' @ two_digits (fullYear now mod 100) @ two_digits (monthIndex now + 1) @
                 two_digits (dayOfMonth now) @
                 padStart 4 (CHR ''0'') (toString_nat (countDocuments_today now os + 1))) \<and>
         4 \<le> length (padStart 4 (CHR ''0'') (toString_nat (countDocuments_today now os + 1))) \<and>
         (countDocuments_today now os < 9999 \<longrightarrow>
            orderNumber (order_pre_save True now os d) =
              Some (spec_orderNumber now (countDocuments_today now os + 1))) \<and>
         (countDocuments_today now os = 2 \<longrightarrow>
            orderNumber (order_pre_save True now os d) =
              Some (''ORD'' @ two_digits (fullYear now mod 100) @
                    two_digits (monthIndex now + 1) @ two_digits (dayOfMonth now) @ ''0003'')) \<and>
         (9999 \<le> countDocuments_today now os \<longrightarrow>
            padStart 4 (CHR ''0'') (toString_nat (countDocuments_today now os + 1)) =
              toString_nat (countDocuments_today now os + 1) \<and>
            4 < length (toString_nat (countDocuments_today now os + 1)))"
proof -
  let ?n = "countDocuments_today now os + 1"
  have saved: "Order_save_new now os d =
           Inr (os @ [order_pre_save True now os d], order_pre_save True now os d)"
    using assms(2) by (simp add: Order_save_new_def Let_def)
  have y: "slice_last 2 (toString_nat (fullYear now)) = two_digits (fullYear now mod 100)"
    using assms(1) by (intro slice_last_year) (simp add: valid_date_def)
  have m: "padStart 2 (CHR ''0'') (toString_nat (monthIndex now + 1)) = two_digits (monthIndex now + 1)"
    using assms(1) by (intro padStart_2) (simp add: valid_date_def)
  have d: "padStart 2 (CHR ''0'') (toString_nat (dayOfMonth now)) = two_digits (dayOfMonth now)"
    using assms(1) by (intro padStart_2) (simp add: valid_date_def)
  have shape: "orderNumber (order_pre_save True now os d) =
           Some (''ORD'' @ two_digits (fullYear now mod 100) @ two_digits (monthIndex now + 1) @
                 two_digits (dayOfMonth now) @ padStart 4 (CHR ''0'') (toString_nat ?n))"
    unfolding order_pre_save_orderNumber y m d ..
  have len: "4 \<le> length (padStart 4 (CHR ''0'') (toString_nat ?n))"
    by (simp add: padStart_def)
  have small: "padStart 4 (CHR ''0'') (toString_nat ?n) = four_digits ?n"
    if "countDocuments_today now os < 9999"
    using that by (intro padStart_4) simp
  have three: "padStart 4 (CHR ''0'') (toString_nat ?n) = ''0003''"
    if "countDocuments_today now os = 2"
    using that by (simp add: padStart_def toString_nat_small digit_char_simps replicate_numeral)
  have big: "padStart 4 (CHR ''0'') (toString_nat ?n) = toString_nat ?n \<and>
             4 < length (toString_nat ?n)"
    if "9999 \<le> countDocuments_today now os"
  proof -
    have "(10::nat) ^ 4 \<le> ?n" using that by simp
    then have "4 < length (toString_nat ?n)" by (rule length_toString_nat_lower)
    then show ?thesis by (simp add: padStart_def)
  qed
  show ?thesis
    using saved shape len small three big by (simp add: spec_orderNumber_def)
qed

theorem orderNumber_format_witness:
  "valid_date day0 \<and> order_validate new_document = [] \<and>
   countDocuments_today day0 [seeded_order, seeded_order\<lparr>o_id := 2\<rparr>] = 2 \<and>
   Order_save_new day0 [seeded_order, seeded_order\<lparr>o_id := 2\<rparr>] new_document =
     Inr ([seeded_order, seeded_order\<lparr>o_id := 2\<rparr>,
           new_document\<lparr>orderNumber := Some ''ORD2403050003''\<rparr>],
          new_document\<lparr>orderNumber := Some ''ORD2403050003''\<rparr>)"
proof -
  have v: "valid_date day0" by (simp add: valid_date_def day0_def)
  have c: "countDocuments_today day0 [seeded_order, seeded_order\<lparr>o_id := 2\<rparr>] = 2"
    by (simp add: countDocuments_today_def created_today_def seeded_order_def)
  have h: "order_pre_save True day0 [seeded_order, seeded_order\<lparr>o_id := 2\<rparr>] new_document =
             new_document\<lparr>orderNumber :=
               orderNumber (order_pre_save True day0 [seeded_order, seeded_order\<lparr>o_id := 2\<rparr>]
                              new_document)\<rparr>"
    by (simp add: order_pre_save_def Let_def)
  from orderNumber_format[OF v new_document_valid, of "[seeded_order, seeded_order\<lparr>o_id := 2\<rparr>]"]
  have s: "Order_save_new day0 [seeded_order, seeded_order\<lparr>o_id := 2\<rparr>] new_document =
           Inr ([seeded_order, seeded_order\<lparr>o_id := 2\<rparr>] @
                  [order_pre_save True day0 [seeded_order, seeded_order\<lparr>o_id := 2\<rparr>] new_document],
                order_pre_save True day0 [seeded_order, seeded_order\<lparr>o_id := 2\<rparr>] new_document)"
    and "countDocuments_today day0 [seeded_order, seeded_order\<lparr>o_id := 2\<rparr>] = 2 \<longrightarrow>
     orderNumber (order_pre_save True day0 [seeded_order, seeded_order\<lparr>o_id := 2\<rparr>] new_document)
     = Some (''ORD'' @ two_digits (fullYear day0 mod 100) @ two_digits (monthIndex day0 + 1) @
              two_digits (dayOfMonth day0) @ ''0003'')"
    by blast+
  with c have n: "orderNumber (order_pre_save True day0 [seeded_order, seeded_order\<lparr>o_id := 2\<rparr>] new_document)
     = Some ''ORD2403050003''"
    by (simp add: two_digits_def day0_def digit_char_def)
  show ?thesis using v new_document_valid c s h n by simp
qed

text \<open>
  The sequence is not always four digits: on a day with 9999 earlier orders (C9) a valid
  new document is numbered \<^verbatim>\<open>ORD24030510000\<close> by the hook, where the specification's
  format would give \<^verbatim>\<open>ORD2403050000\<close>.
\<close>

theorem orderNumber_four_digits_counterexample:
  "order_validate new_document = [] \<and>
   orderNumber (order_pre_save True day0 busy_day new_document) = Some ''ORD24030510000'' \<and>
   spec_orderNumber day0 (countDocuments_today day0 busy_day + 1) = ''ORD2403050000''"
proof -
  have "orderNumber (order_pre_save True day0 busy_day new_document) =
     Some (''ORD'' @ slice_last 2 (toString_nat (fullYear day0)) @
           padStart 2 (CHR ''0'') (toString_nat (monthIndex day0 + 1)) @
           padStart 2 (CHR ''0'') (toString_nat (dayOfMonth day0)) @
           padStart 4 (CHR ''0'') (toString_nat (9999 + 1)))"
    unfolding order_pre_save_orderNumber busy_day_count ..
  then have a: "orderNumber (order_pre_save True day0 busy_day new_document) =
     Some ''ORD24030510000''"
    by (simp add: day0_def digit_char_def padStart_def slice_last_def toString_nat.simps)
  have "spec_orderNumber day0 (countDocuments_today day0 busy_day + 1) =
          spec_orderNumber day0 (9999 + 1)"
    unfolding busy_day_count ..
  then have b: "spec_orderNumber day0 (countDocuments_today day0 busy_day + 1) = ''ORD2403050000''"
    by (simp add: spec_orderNumber_def day0_def two_digits_def four_digits_def digit_char_def)
  from new_document_valid a b show ?thesis by blast
qed

text \<open>
  C10. A request whose \<open>items\<close> are absent or an empty list is refused with
  "Please add items to your order", status 400, and the store (products, orders, shops,
  notifications) is returned as it was.
\<close>

theorem createOrder_no_items:
  assumes "items b = None \<or> items b = Some []"
  shows "createOrder now user b s =
           (s, Next (ErrorResponse ''Please add items to your order'' 400))"
  using assms by (auto simp: createOrder_def)

theorem createOrder_no_items_witness:
  "createOrder day0 alice (two_milk\<lparr>items := Some []\<rparr>) store0 =
     (store0, Next (ErrorResponse ''Please add items to your order'' 400)) \<and>
   createOrder day0 alice (two_milk\<lparr>items := None\<rparr>) store0 =
     (store0, Next (ErrorResponse ''Please add items to your order'' 400))"
  using createOrder_no_items[of "two_milk\<lparr>items := Some []\<rparr>" day0 alice store0]
    createOrder_no_items[of "two_milk\<lparr>items := None\<rparr>" day0 alice store0]
  by simp

end
